theory Spec2Isabelle
  imports Main "HOL-Library.Word"
begin

unbundle bit_operations_syntax

section \<open>Data model\<close>

text \<open>
  The program builds and checks Bitcoin transactions through the bcoin library. The
  objects of the library are modelled by their fields as the source reads and writes
  them; satoshi amounts are JavaScript numbers holding integers, modelled as \<open>int\<close>.
\<close>

type_synonym bytes = "8 word list"

text \<open>An opcode of a script: its number and, for a data push, the pushed bytes
  (\<open>op.data\<close> is null for any other opcode).\<close>

record opcode =
  op_value :: nat
  op_data :: "bytes option"

text \<open>A script: the array \<open>script.code\<close> and the serialisation \<open>script.raw\<close>
  that \<open>compile()\<close> fills in.\<close>

record script =
  code :: "opcode list"
  raw :: bytes

text \<open>An address object. \<open>addr_ident\<close> is the identity of the JavaScript object:
  \<open>===\<close> and \<open>!==\<close> on objects compare identities, not contents.\<close>

record address =
  addr_ident :: nat
  addr_type :: nat
  addr_hash :: bytes

record txoutput =
  o_value :: int
  o_script :: script

record txinput =
  prev_hash :: bytes
  prev_index :: nat
  i_script :: script

record tx =
  version :: nat
  inputs :: "txinput list"
  outputs :: "txoutput list"

record coin =
  c_hash :: bytes
  c_index :: nat
  c_value :: int

text \<open>A key ring, by what its getters return.\<close>

record keyring =
  getPublicKey :: bytes
  getPrivateKey :: bytes
  getAddress :: address

section \<open>The library and the runtime, as parameters\<close>

text \<open>
  The source calls bcoin, n64 and the JavaScript runtime for everything cryptographic
  or serialising. None of that code belongs to the repository, so every such call is a
  field of the environment \<open>E\<close>, and the theorems hold for every environment.
  \<^item> \<open>fromSymbol\<close>, \<open>fromData\<close>, \<open>fromInt\<close>: the opcode that \<open>pushSym\<close>,
    \<open>pushData\<close> and \<open>pushInt\<close> append;
  \<^item> \<open>encode\<close>: the bytes \<open>compile()\<close> and \<open>toRaw()\<close> produce from the code array;
  \<^item> \<open>isNulldata\<close>, \<open>isPubkeyhash\<close>, \<open>isScripthash\<close>: the script classifiers;
  \<^item> \<open>publicKeyVerify\<close>: \<open>crypto.secp256k1.publicKeyVerify\<close>;
  \<^item> \<open>outAddress\<close>: \<open>Output.getAddress()\<close>, null when the script has no address;
  \<^item> \<open>toStringAscii\<close>: \<open>Buffer.toString('ascii')\<close>;
  \<^item> \<open>fromUtf8\<close>: \<open>Buffer.from(name, 'utf-8')\<close>;
  \<^item> \<open>fromAddress\<close>, \<open>fromNulldata\<close>: \<open>Script.fromAddress\<close>, \<open>Script.fromNulldata\<close>;
  \<^item> \<open>txHash\<close>: the hash by which an input refers to the transaction it spends;
  \<^item> \<open>txid\<close>: the transaction id in hexadecimal, \<open>util.revHex(tx.hash('hex'))\<close>;
  \<^item> \<open>getVirtualSize\<close>: \<open>MTX.getVirtualSize()\<close>;
  \<^item> \<open>ceilFee\<close>: the floating-point expression \<open>Math.ceil(virtSize / 1000 * feeRate)\<close>;
  \<^item> \<open>scriptInput\<close>, \<open>signInput\<close>: the script that \<open>MTX.scriptInput\<close> and
    \<open>MTX.signInput\<close> leave in the input of the given index;
  \<^item> \<open>signature\<close>: \<open>MTX.signature(index, prev, value, key, type, version)\<close>;
  \<^item> \<open>validValue\<close>: the library's assertion on the value of a new output;
  \<^item> \<open>isUnspendable\<close>, \<open>dustThreshold\<close>: \<open>Script.isUnspendable()\<close> and
    \<open>Output.getDustThreshold()\<close>, both used by \<open>subtractFee\<close>.
\<close>

record env =
  fromSymbol :: "string \<Rightarrow> opcode"
  fromData :: "bytes \<Rightarrow> opcode"
  fromInt :: "int \<Rightarrow> opcode"
  encode :: "opcode list \<Rightarrow> bytes"
  isNulldata :: "script \<Rightarrow> bool"
  isPubkeyhash :: "script \<Rightarrow> bool"
  isScripthash :: "script \<Rightarrow> bool"
  publicKeyVerify :: "bytes option \<Rightarrow> bool"
  outAddress :: "txoutput \<Rightarrow> address option"
  toStringAscii :: "bytes \<Rightarrow> string"
  fromUtf8 :: "string \<Rightarrow> bytes"
  fromAddress :: "address \<Rightarrow> script"
  fromNulldata :: "bytes \<Rightarrow> script"
  txHash :: "tx \<Rightarrow> bytes"
  txid :: "tx \<Rightarrow> string"
  getVirtualSize :: "tx \<Rightarrow> nat"
  ceilFee :: "nat \<Rightarrow> int \<Rightarrow> int"
  scriptInput :: "nat \<Rightarrow> coin \<Rightarrow> keyring \<Rightarrow> tx \<Rightarrow> script"
  signInput :: "nat \<Rightarrow> coin \<Rightarrow> keyring \<Rightarrow> tx \<Rightarrow> script"
  signature :: "tx \<Rightarrow> nat \<Rightarrow> script \<Rightarrow> int \<Rightarrow> bytes \<Rightarrow> bytes"
  validValue :: "int \<Rightarrow> bool"
  isUnspendable :: "script \<Rightarrow> bool"
  dustThreshold :: "txoutput \<Rightarrow> int"

text \<open>What the source can raise: a property read on \<open>undefined\<close> or \<open>null\<close>
  (\<open>TypeError\<close>), and the errors of the library's transaction builder.\<close>

datatype js_error = TypeError | AssertionError | SubtractFeeError

text \<open>\<open>xs[i]\<close> on a JavaScript array: \<open>undefined\<close> out of range.\<close>

definition nth_opt :: "'a list \<Rightarrow> nat \<Rightarrow> 'a option" where
  "nth_opt xs i = (if i < length xs then Some (xs ! i) else None)"

section \<open>The verifier (src/lib/verify.ts)\<close>

text \<open>One character of the class \<open>[a-zA-Z0-9_\-\.\~]\<close>.\<close>

definition uriSafeChar :: "char \<Rightarrow> bool" where
  "uriSafeChar c =
     (let n = (of_char c :: nat) in
        (97 \<le> n \<and> n \<le> 122) \<or> (65 \<le> n \<and> n \<le> 90) \<or> (48 \<le> n \<and> n \<le> 57) \<or>
        c = CHR ''_'' \<or> c = CHR ''-'' \<or> c = CHR ''.'' \<or> c = CHR ''~'')"

text \<open>\<open>/^[a-zA-Z0-9_\-\.\~]*$/.test(str)\<close>: the whole string is in the class.\<close>

definition isURISafe :: "string \<Rightarrow> bool" where
  "isURISafe str = list_all uriSafeChar str"

definition isValidOP_RETURN :: "env \<Rightarrow> txoutput \<Rightarrow> bool" where
  "isValidOP_RETURN E out =
     (if \<not> isNulldata E (o_script out) then False
      else if o_value out \<noteq> 0 then False
      else if length (code (o_script out)) \<noteq> 2 then False
      else True)"

text \<open>\<open>a !== b\<close> where \<open>a\<close> is an object or null and \<open>b\<close> an object.\<close>

definition notSameObject :: "address option \<Rightarrow> address \<Rightarrow> bool" where
  "notSameObject a b =
     (case a of None \<Rightarrow> True | Some a' \<Rightarrow> addr_ident a' \<noteq> addr_ident b)"

definition verifyLockTX :: "env \<Rightarrow> tx \<Rightarrow> address \<Rightarrow> js_error + bool" where
  "verifyLockTX E t serviceAddr =
     (if length (outputs t) \<ge> 4 then Inr False else
      (case nth_opt (outputs t) 0 of None \<Rightarrow> Inl TypeError | Some out0 \<Rightarrow>
      (if \<not> isValidOP_RETURN E out0 then Inr False else
      (case nth_opt (code (o_script out0)) 1 of None \<Rightarrow> Inl TypeError | Some op0 \<Rightarrow>
      (if \<not> publicKeyVerify E (op_data op0) then Inr False else
      (case nth_opt (outputs t) 1 of None \<Rightarrow> Inl TypeError | Some out1 \<Rightarrow>
      (if \<not> isValidOP_RETURN E out1 then Inr False else
      (case nth_opt (code (o_script out1)) 1 of None \<Rightarrow> Inl TypeError | Some op1 \<Rightarrow>
      (case op_data op1 of None \<Rightarrow> Inl TypeError | Some name \<Rightarrow>
      (if length name > 64 then Inr False else
      (if \<not> isURISafe (toStringAscii E name) then Inr False else
      (case nth_opt (outputs t) 2 of None \<Rightarrow> Inl TypeError | Some out2 \<Rightarrow>
      (if \<not> isPubkeyhash E (o_script out2) \<and> \<not> isScripthash E (o_script out2)
       then Inr False else
      (if notSameObject (outAddress E out2) serviceAddr then Inr False else
      (case nth_opt (outputs t) 3 of None \<Rightarrow> Inl TypeError | Some out3 \<Rightarrow>
      (if \<not> isScripthash E (o_script out3) then Inr False
       else Inr True))))))))))))))))"

text \<open>Lines 65 to 81 of \<open>verifyLockTX\<close> on their own: what the function goes on to
  do once the name has passed the checks of lines 56 to 63.\<close>

definition verifyLockTX_tail :: "env \<Rightarrow> tx \<Rightarrow> address \<Rightarrow> js_error + bool" where
  "verifyLockTX_tail E t serviceAddr =
      (case nth_opt (outputs t) 2 of None \<Rightarrow> Inl TypeError | Some out2 \<Rightarrow>
      (if \<not> isPubkeyhash E (o_script out2) \<and> \<not> isScripthash E (o_script out2)
       then Inr False else
      (if notSameObject (outAddress E out2) serviceAddr then Inr False else
      (case nth_opt (outputs t) 3 of None \<Rightarrow> Inl TypeError | Some out3 \<Rightarrow>
      (if \<not> isScripthash E (o_script out3) then Inr False
       else Inr True)))))"

section \<open>Scripts and transactions (src/lib/net.ts, second part)\<close>

text \<open>\<open>new Script()\<close> and the three ways the source appends to a script.\<close>

definition emptyScript :: script where
  "emptyScript = \<lparr>code = [], raw = []\<rparr>"

definition pushSym :: "env \<Rightarrow> string \<Rightarrow> script \<Rightarrow> script" where
  "pushSym E name s = s\<lparr>code := code s @ [fromSymbol E name]\<rparr>"

definition pushData :: "env \<Rightarrow> bytes \<Rightarrow> script \<Rightarrow> script" where
  "pushData E d s = s\<lparr>code := code s @ [fromData E d]\<rparr>"

definition pushInt :: "env \<Rightarrow> int \<Rightarrow> script \<Rightarrow> script" where
  "pushInt E n s = s\<lparr>code := code s @ [fromInt E n]\<rparr>"

definition compile :: "env \<Rightarrow> script \<Rightarrow> script" where
  "compile E s = s\<lparr>raw := encode E (code s)\<rparr>"

text \<open>\<open>I64(rlocktime)\<close> is the 64-bit two's complement integer; \<open>toLE(Buffer)\<close> its
  eight bytes, least significant first.\<close>

definition I64 :: "int \<Rightarrow> 64 word" where
  "I64 n = word_of_int n"

definition toLE :: "64 word \<Rightarrow> bytes" where
  "toLE w = map (\<lambda>i. ucast (drop_bit (8 * i) w)) [0..<8]"

text \<open>
  The loop
  \<^verbatim>\<open>while (min > 1) { if (numBuff[min] === 0) { min -= 1; } else { break; } }\<close>
  as a function of \<open>min\<close>, returning its final value.
\<close>

fun stripLoop :: "bytes \<Rightarrow> nat \<Rightarrow> nat" where
  "stripLoop numBuff m =
     (if m > 1 then (if nth_opt numBuff m = Some 0 then stripLoop numBuff (m - 1) else m)
      else m)"

text \<open>Lines 270 to 282: the bytes given to \<open>pushData\<close> before
  \<open>OP_CHECKSEQUENCEVERIFY\<close>, that is \<open>numBuff.slice(0, min)\<close>.\<close>

definition locktimeData :: "int \<Rightarrow> bytes" where
  "locktimeData rlocktime =
     (let numBuff = toLE (I64 rlocktime);
          m = stripLoop numBuff (length numBuff - 1)
      in take m numBuff)"

definition makeEncumberScript :: "env \<Rightarrow> bytes \<Rightarrow> bytes \<Rightarrow> int \<Rightarrow> script" where
  "makeEncumberScript E userPubkey servicePubkey rlocktime =
     (let s = emptyScript;
          s = pushSym E ''OP_IF'' s;
          s = pushData E userPubkey s;
          s = pushSym E ''OP_CHECKSIG'' s;
          s = pushSym E ''OP_ELSE'' s;
          s = pushData E (locktimeData rlocktime) s;
          s = pushSym E ''OP_CHECKSEQUENCEVERIFY'' s;
          s = pushSym E ''OP_DROP'' s;
          s = pushData E servicePubkey s;
          s = pushSym E ''OP_CHECKSIG'' s;
          s = pushSym E ''OP_ENDIF'' s
      in compile E s)"

definition genRedeemScript :: "env \<Rightarrow> keyring \<Rightarrow> int \<Rightarrow> script" where
  "genRedeemScript E ring locktime =
     makeEncumberScript E (getPublicKey ring) (getPublicKey ring) locktime"

subsection \<open>The transaction builder of the library\<close>

text \<open>
  \<open>MTX\<close> is the mutable transaction of the library. Its methods are modelled by what
  they do to the inputs and outputs: \<open>addCoin\<close> and \<open>addTX\<close> append an input that
  refers to the coin or to the output of the transaction, \<open>addOutput\<close> appends an output
  (the library asserts that its value is valid).
\<close>

definition newMTX :: "nat \<Rightarrow> tx" where
  "newMTX v = \<lparr>version = v, inputs = [], outputs = []\<rparr>"

definition addCoin :: "coin \<Rightarrow> tx \<Rightarrow> tx" where
  "addCoin c t =
     t\<lparr>inputs := inputs t @
        [\<lparr>prev_hash = c_hash c, prev_index = c_index c, i_script = emptyScript\<rparr>]\<rparr>"

definition addTX :: "env \<Rightarrow> tx \<Rightarrow> nat \<Rightarrow> tx \<Rightarrow> tx" where
  "addTX E prev index t =
     t\<lparr>inputs := inputs t @
        [\<lparr>prev_hash = txHash E prev, prev_index = index, i_script = emptyScript\<rparr>]\<rparr>"

definition addOutput :: "env \<Rightarrow> txoutput \<Rightarrow> tx \<Rightarrow> js_error + tx" where
  "addOutput E out t =
     (if validValue E (o_value out) then Inr (t\<lparr>outputs := outputs t @ [out]\<rparr>)
      else Inl AssertionError)"

text \<open>
  \<open>MTX.subtractFee(fee)\<close> of the library takes the fee alone: the index that the source
  passes as a second argument is not read. The fee is taken in even shares from every
  output whose script is spendable, null-data outputs being left as they are:
  \<^verbatim>\<open>
  let outputs = 0;
  for (const output of this.outputs) {
    if (output.script.isUnspendable()) continue;
    outputs += 1;
  }
  if (outputs === 0) throw new Error('Could not subtract fee.');
  const left = fee % outputs;
  const share = (fee - left) / outputs;
  for (const output of this.outputs) {
    if (output.script.isUnspendable()) continue;
    if (output.value < share + output.getDustThreshold())
      throw new Error('Could not subtract fee.');
    output.value -= share;
  }
  for (const output of this.outputs) {
    if (output.script.isUnspendable()) continue;
    if (output.value >= left + output.getDustThreshold()) {
      output.value -= left;
      return;
    }
  }
  throw new Error('Could not subtract fee.');
  \<close>
\<close>

text \<open>\<open>a % b\<close> on integers, \<open>b\<close> positive: the remainder has the sign of \<open>a\<close>.\<close>

definition jsRem :: "int \<Rightarrow> int \<Rightarrow> int" where
  "jsRem a b = sgn a * (\<bar>a\<bar> mod \<bar>b\<bar>)"

text \<open>The first loop over the outputs: every spendable output gives its share.\<close>

fun firstPass :: "env \<Rightarrow> int \<Rightarrow> txoutput list \<Rightarrow> txoutput list option" where
  "firstPass E share [] = Some []"
| "firstPass E share (out # outs) =
     (if isUnspendable E (o_script out) then map_option ((#) out) (firstPass E share outs)
      else if o_value out < share + dustThreshold E out then None
      else map_option ((#) (out\<lparr>o_value := o_value out - share\<rparr>)) (firstPass E share outs))"

text \<open>The second loop: the first spendable output that can afford it gives the
  remainder; when none can, the method throws.\<close>

fun secondPass :: "env \<Rightarrow> int \<Rightarrow> txoutput list \<Rightarrow> txoutput list option" where
  "secondPass E left [] = None"
| "secondPass E left (out # outs) =
     (if isUnspendable E (o_script out) then map_option ((#) out) (secondPass E left outs)
      else if o_value out \<ge> left + dustThreshold E out
        then Some (out\<lparr>o_value := o_value out - left\<rparr> # outs)
      else map_option ((#) out) (secondPass E left outs))"

definition subtractFee :: "env \<Rightarrow> int \<Rightarrow> nat \<Rightarrow> tx \<Rightarrow> js_error + tx" where
  "subtractFee E fee index t =
     (let n = int (length (filter (\<lambda>out. \<not> isUnspendable E (o_script out)) (outputs t)))
      in
      if n = 0 then Inl SubtractFeeError else
      (let left = jsRem fee n;
           share = (fee - left) div n
       in
       (case firstPass E share (outputs t) of None \<Rightarrow> Inl SubtractFeeError | Some outs \<Rightarrow>
       (case secondPass E left outs of None \<Rightarrow> Inl SubtractFeeError | Some outs' \<Rightarrow>
        Inr (t\<lparr>outputs := outs'\<rparr>)))))"

text \<open>\<open>tx.inputs[i].script = s\<close>.\<close>

definition setInputScript :: "nat \<Rightarrow> script \<Rightarrow> tx \<Rightarrow> tx" where
  "setInputScript i s t = t\<lparr>inputs := (inputs t)[i := (inputs t ! i)\<lparr>i_script := s\<rparr>]\<rparr>"

text \<open>The two loops \<open>for (let i = 0; i < coins.length; ++i)\<close> of \<open>genLockTx\<close>, from
  index \<open>i\<close> on.\<close>

fun scriptInputs :: "env \<Rightarrow> keyring \<Rightarrow> nat \<Rightarrow> coin list \<Rightarrow> tx \<Rightarrow> tx" where
  "scriptInputs E ring i [] t = t"
| "scriptInputs E ring i (c # cs) t =
     scriptInputs E ring (Suc i) cs (setInputScript i (scriptInput E i c ring t) t)"

fun signInputs :: "env \<Rightarrow> keyring \<Rightarrow> nat \<Rightarrow> coin list \<Rightarrow> tx \<Rightarrow> tx" where
  "signInputs E ring i [] t = t"
| "signInputs E ring i (c # cs) t =
     signInputs E ring (Suc i) cs (setInputScript i (signInput E i c ring t) t)"

subsection \<open>genLockTx\<close>

text \<open>\<open>coins.reduce((acc, cur) => acc + cur.value, 0)\<close>.\<close>

definition coinsTotal :: "coin list \<Rightarrow> int" where
  "coinsTotal coins = foldl (\<lambda>acc cur. acc + c_value cur) 0 coins"

definition opRetVal :: int where
  "opRetVal = 1"

definition changeVal :: "coin list \<Rightarrow> int \<Rightarrow> int \<Rightarrow> int" where
  "changeVal coins upfrontFee lockedFee =
     coinsTotal coins - opRetVal - upfrontFee - lockedFee"

text \<open>Lines 308 to 343 of \<open>genLockTx\<close>: the transaction once the coins and the four
  outputs are added, before any fee is subtracted.\<close>

definition genLockTx_outputs ::
  "env \<Rightarrow> keyring \<Rightarrow> coin list \<Rightarrow> string \<Rightarrow> int \<Rightarrow> int \<Rightarrow> address \<Rightarrow> address
     \<Rightarrow> js_error + tx" where
  "genLockTx_outputs E ring coins name upfrontFee lockedFee serviceAddr p2shAddr =
     (let lockTx = foldl (\<lambda>t c. addCoin c t) (newMTX 1) coins;
          dataScript = fromNulldata E (fromUtf8 E name)
      in
      (case addOutput E \<lparr>o_value = changeVal coins upfrontFee lockedFee,
                         o_script = fromAddress E (getAddress ring)\<rparr> lockTx of
         Inl e \<Rightarrow> Inl e | Inr lockTx \<Rightarrow>
      (case addOutput E \<lparr>o_value = opRetVal, o_script = dataScript\<rparr> lockTx of
         Inl e \<Rightarrow> Inl e | Inr lockTx \<Rightarrow>
      (case addOutput E \<lparr>o_value = upfrontFee, o_script = fromAddress E serviceAddr\<rparr> lockTx of
         Inl e \<Rightarrow> Inl e | Inr lockTx \<Rightarrow>
      addOutput E \<lparr>o_value = lockedFee, o_script = fromAddress E p2shAddr\<rparr> lockTx))))"

text \<open>Lines 345 to 364: the placeholder input scripts, the call
  \<open>lockTx.subtractFee(fee, 0)\<close>, the signatures.\<close>

definition genLockTx_finish ::
  "env \<Rightarrow> keyring \<Rightarrow> coin list \<Rightarrow> int \<Rightarrow> tx \<Rightarrow> js_error + tx" where
  "genLockTx_finish E ring coins feeRate lockTx =
     (let lockTx = scriptInputs E ring 0 coins lockTx;
          virtSize = getVirtualSize E lockTx + length coins * 72
      in
      (case subtractFee E (ceilFee E virtSize feeRate) 0 lockTx of
         Inl e \<Rightarrow> Inl e | Inr lockTx \<Rightarrow>
      Inr (signInputs E ring 0 coins lockTx)))"

definition genLockTx ::
  "env \<Rightarrow> keyring \<Rightarrow> coin list \<Rightarrow> string \<Rightarrow> int \<Rightarrow> int \<Rightarrow> int \<Rightarrow> address \<Rightarrow> address
     \<Rightarrow> js_error + tx" where
  "genLockTx E ring coins name upfrontFee lockedFee feeRate serviceAddr p2shAddr =
     (case genLockTx_outputs E ring coins name upfrontFee lockedFee serviceAddr p2shAddr of
        Inl e \<Rightarrow> Inl e
      | Inr lockTx \<Rightarrow> genLockTx_finish E ring coins feeRate lockTx)"

subsection \<open>genUnlockTx\<close>

text \<open>The input script both passes of \<open>genUnlockTx\<close> build from the state of the
  transaction at that moment.\<close>

definition unlockScript ::
  "env \<Rightarrow> keyring \<Rightarrow> tx \<Rightarrow> script \<Rightarrow> int \<Rightarrow> script" where
  "unlockScript E ring unlockTx redeemScript val =
     (let s = emptyScript;
          s = pushData E (signature E unlockTx 0 redeemScript val (getPrivateKey ring)) s;
          s = pushInt E 1 s;
          s = pushData E (raw redeemScript) s
      in compile E s)"

definition genUnlockTx ::
  "env \<Rightarrow> keyring \<Rightarrow> tx \<Rightarrow> int \<Rightarrow> script \<Rightarrow> int \<Rightarrow> js_error + tx" where
  "genUnlockTx E ring lockTx locktime redeemScript feeRate =
     (case nth_opt (outputs lockTx) 3 of None \<Rightarrow> Inl TypeError | Some out3 \<Rightarrow>
      (let val = o_value out3;
           unlockTx = addTX E lockTx 3 (newMTX 2)
       in
       (case addOutput E \<lparr>o_value = val, o_script = fromAddress E (getAddress ring)\<rparr> unlockTx of
          Inl e \<Rightarrow> Inl e | Inr unlockTx \<Rightarrow>
       (let unlockTx = setInputScript 0 (unlockScript E ring unlockTx redeemScript val) unlockTx;
            virtSize = getVirtualSize E unlockTx;
            fee = ceilFee E virtSize feeRate
        in
        (case subtractFee E fee 0 unlockTx of
           Inl e \<Rightarrow> Inl e | Inr unlockTx \<Rightarrow>
         Inr (setInputScript 0 (unlockScript E ring unlockTx redeemScript val) unlockTx))))))"

section \<open>The transaction history index\<close>

datatype txlist_error =
    InvalidLengths
  | InvalidOutputs string nat nat
  | UnknownTxid string
  | UnknownOutput int string

text \<open>
  Modelled from the spec: the class \<open>TXList\<close> (imported by the sources as
  \<open>./TXList\<close>), of which only the test suite is among the source files. Section 3 of the
  specification: it holds three parallel ordered sequences, the transactions, the spent
  flags of each transaction's outputs and the confirmation heights, indexed by
  transaction id, the id being derived from the transaction.
\<close>

record TXList =
  l_txs :: "tx list"
  l_outputsSpent :: "bool list list"
  l_heights :: "int list"

text \<open>
  Modelled from the spec: \<open>getTxids()\<close> of the missing class, section 4.5: the ordered
  sequence of known ids, equal to construction order.
\<close>

definition getTxids :: "env \<Rightarrow> TXList \<Rightarrow> string list" where
  "getTxids E L = map (txid E) (l_txs L)"

text \<open>
  Modelled from the spec: the check the constructor of the missing class makes on each
  transaction, section 4.5: its spent-flag sequence length equals its output count; the
  failure names the transaction id and the actual and expected counts (the test suite:
  \<open>Bad outputs for tx <id>; got 6, expected 3\<close>).
\<close>

fun checkOutputs :: "env \<Rightarrow> tx list \<Rightarrow> bool list list \<Rightarrow> txlist_error option" where
  "checkOutputs E (t # ts) (s # ss) =
     (if length s = length (outputs t) then checkOutputs E ts ss
      else Some (InvalidOutputs (txid E t) (length s) (length (outputs t))))"
| "checkOutputs E ts ss = None"

text \<open>
  Modelled from the spec: the constructor of the missing class, section 4.5: validate
  equal outer lengths and, for each transaction, the length of its spent-flag sequence.
\<close>

definition newTXList ::
  "env \<Rightarrow> tx list \<Rightarrow> bool list list \<Rightarrow> int list \<Rightarrow> txlist_error + TXList" where
  "newTXList E txs outputsSpent heights =
     (if length txs = length outputsSpent \<and> length txs = length heights then
        (case checkOutputs E txs outputsSpent of
           Some e \<Rightarrow> Inl e
         | None \<Rightarrow> Inr \<lparr>l_txs = txs, l_outputsSpent = outputsSpent, l_heights = heights\<rparr>)
      else Inl InvalidLengths)"

text \<open>
  Modelled from the spec: \<open>getTX(id)\<close> of the missing class, section 4.5: returns the
  transaction; fails with \<open>UnknownTxid\<close> if absent.
\<close>

definition getTX :: "env \<Rightarrow> TXList \<Rightarrow> string \<Rightarrow> txlist_error + tx" where
  "getTX E L ident =
     (case map_of (zip (getTxids E L) (l_txs L)) ident of
        None \<Rightarrow> Inl (UnknownTxid ident)
      | Some t \<Rightarrow> Inr t)"

text \<open>
  Modelled from the spec: \<open>getOutputSpent(id, index)\<close> of the missing class, section
  4.5: returns the boolean spent flag; fails with \<open>UnknownTxid\<close> if the id is absent, or
  \<open>UnknownOutput\<close> (naming the index and the id) if the index is out of range for that
  transaction.
\<close>

definition getOutputSpent :: "env \<Rightarrow> TXList \<Rightarrow> string \<Rightarrow> int \<Rightarrow> txlist_error + bool" where
  "getOutputSpent E L ident index =
     (case map_of (zip (getTxids E L) (l_outputsSpent L)) ident of
        None \<Rightarrow> Inl (UnknownTxid ident)
      | Some flags \<Rightarrow>
          if 0 \<le> index \<and> index < int (length flags) then Inr (flags ! nat index)
          else Inl (UnknownOutput index ident))"

section \<open>A small environment for concrete runs\<close>

text \<open>
  To run the functions on concrete transactions the environment needs values. This one
  follows the shapes of Bitcoin scripts (an \<open>OP_RETURN\<close> script starts with opcode 106,
  a pay-to-script-hash script is \<open>OP_HASH160 <20 bytes> OP_EQUAL\<close>, and so on) and
  replaces hashing, signing and sizing by simple arithmetic.
\<close>

definition symbolValue :: "string \<Rightarrow> nat" where
  "symbolValue name =
     (if name = ''OP_IF'' then 99
      else if name = ''OP_ELSE'' then 103
      else if name = ''OP_ENDIF'' then 104
      else if name = ''OP_DROP'' then 117
      else if name = ''OP_CHECKSIG'' then 172
      else if name = ''OP_CHECKSEQUENCEVERIFY'' then 178
      else 255)"

definition plainOp :: "nat \<Rightarrow> opcode" where
  "plainOp n = \<lparr>op_value = n, op_data = None\<rparr>"

definition dataOp :: "bytes \<Rightarrow> opcode" where
  "dataOp d = \<lparr>op_value = length d, op_data = Some d\<rparr>"

definition encodeOps :: "opcode list \<Rightarrow> bytes" where
  "encodeOps ops =
     concat (map (\<lambda>p. of_nat (op_value p) # (case op_data p of None \<Rightarrow> [] | Some d \<Rightarrow> d)) ops)"

definition mkScript :: "opcode list \<Rightarrow> script" where
  "mkScript ops = \<lparr>code = ops, raw = encodeOps ops\<rparr>"

definition p2pkhScript :: "bytes \<Rightarrow> script" where
  "p2pkhScript h = mkScript [plainOp 118, plainOp 169, dataOp h, plainOp 136, plainOp 172]"

definition p2shScript :: "bytes \<Rightarrow> script" where
  "p2shScript h = mkScript [plainOp 169, dataOp h, plainOp 135]"

definition nulldataScript :: "bytes \<Rightarrow> script" where
  "nulldataScript d = mkScript [plainOp 106, dataOp d]"

definition demoEnv :: env where
  "demoEnv =
     \<lparr>fromSymbol = (\<lambda>name. plainOp (symbolValue name)),
      fromData = dataOp,
      fromInt = (\<lambda>n. plainOp (nat (n + 80))),
      encode = encodeOps,
      isNulldata = (\<lambda>s. map op_value (take 1 (code s)) = [106]),
      isPubkeyhash = (\<lambda>s. map op_value (code s) = [118, 169, 20, 136, 172]),
      isScripthash = (\<lambda>s. map op_value (code s) = [169, 20, 135]),
      publicKeyVerify =
        (\<lambda>d. case d of None \<Rightarrow> False
              | Some b \<Rightarrow> length b = 33 \<and> (take 1 b = [2] \<or> take 1 b = [3])),
      outAddress = (\<lambda>out. None),
      toStringAscii = map (\<lambda>b. char_of (unat (b AND 127))),
      fromUtf8 = map (\<lambda>c. of_nat (of_char c)),
      fromAddress = (\<lambda>a. if addr_type a = 5 then p2shScript (addr_hash a)
                          else p2pkhScript (addr_hash a)),
      fromNulldata = nulldataScript,
      txHash = (\<lambda>t. [of_nat (length (inputs t)), of_nat (length (outputs t))]),
      txid = (\<lambda>t. replicate (length (outputs t)) CHR ''a''),
      getVirtualSize = (\<lambda>t. 10 + 148 * length (inputs t) + 34 * length (outputs t)),
      ceilFee = (\<lambda>virtSize feeRate. (int virtSize * feeRate + 999) div 1000),
      scriptInput = (\<lambda>i c ring t. mkScript [dataOp (getPublicKey ring)]),
      signInput = (\<lambda>i c ring t. mkScript [dataOp [48], dataOp (getPublicKey ring)]),
      signature = (\<lambda>t i prev val key. [48, of_nat (length (outputs t))]),
      validValue = (\<lambda>v. 0 \<le> v),
      isUnspendable = (\<lambda>s. map op_value (take 1 (code s)) = [106]),
      dustThreshold = (\<lambda>out. 0)\<rparr>"

section \<open>The wording of the specification, for comparison\<close>

text \<open>The character class \<open>[A-Za-z0-9_.~]\<close> that the specification gives for names.\<close>

definition specSafeChar :: "char \<Rightarrow> bool" where
  "specSafeChar c =
     (let n = (of_char c :: nat) in
        (65 \<le> n \<and> n \<le> 90) \<or> (97 \<le> n \<and> n \<le> 122) \<or> (48 \<le> n \<and> n \<le> 57) \<or>
        c = CHR ''_'' \<or> c = CHR ''.'' \<or> c = CHR ''~'')"

text \<open>The encoding of the relative locktime in the specification's words: the
  little-endian bytes of the value, trailing zero bytes stripped down to a minimum of
  two bytes.\<close>

definition spec_locktimeEncoding :: "int \<Rightarrow> bytes" where
  "spec_locktimeEncoding v =
     (let numBuff = toLE (I64 v)
      in take 2 numBuff @ rev (dropWhile (\<lambda>b. b = 0) (rev (drop 2 numBuff))))"

section \<open>Concrete inputs\<close>

definition demoPubkey :: bytes where
  "demoPubkey = 2 # replicate 32 7"

definition ownerAddr :: address where
  "ownerAddr = \<lparr>addr_ident = 1, addr_type = 0, addr_hash = replicate 20 9\<rparr>"

definition serviceAddr0 :: address where
  "serviceAddr0 = \<lparr>addr_ident = 2, addr_type = 0, addr_hash = replicate 20 5\<rparr>"

definition escrowAddr :: address where
  "escrowAddr = \<lparr>addr_ident = 3, addr_type = 5, addr_hash = replicate 20 6\<rparr>"

definition demoRing :: keyring where
  "demoRing = \<lparr>getPublicKey = demoPubkey, getPrivateKey = [1, 2, 3], getAddress = ownerAddr\<rparr>"

definition demoCoins :: "coin list" where
  "demoCoins = [\<lparr>c_hash = [171], c_index = 0, c_value = 100000\<rparr>]"

text \<open>A transaction in the layout the verifier reads: the public key and the name
  \<open>alice\<close> in two zero-valued null-data outputs, a payment to the service, a
  pay-to-script-hash output.\<close>

definition fourOutputTx :: tx where
  "fourOutputTx =
     \<lparr>version = 1, inputs = [],
      outputs =
        [\<lparr>o_value = 0, o_script = nulldataScript demoPubkey\<rparr>,
         \<lparr>o_value = 0, o_script = nulldataScript [97, 108, 105, 99, 101]\<rparr>,
         \<lparr>o_value = 1000, o_script = p2pkhScript (addr_hash serviceAddr0)\<rparr>,
         \<lparr>o_value = 2000, o_script = p2shScript (addr_hash escrowAddr)\<rparr>]\<rparr>"

text \<open>A transaction whose output 1 carries the name \<open>a-b\<close>.\<close>

definition hyphenTx :: tx where
  "hyphenTx =
     \<lparr>version = 1, inputs = [],
      outputs =
        [\<lparr>o_value = 0, o_script = nulldataScript demoPubkey\<rparr>,
         \<lparr>o_value = 0, o_script = nulldataScript [97, 45, 98]\<rparr>]\<rparr>"

text \<open>A transaction whose output 1 carries the name \<open>a b\<close>.\<close>

definition spaceTx :: tx where
  "spaceTx =
     \<lparr>version = 1, inputs = [],
      outputs =
        [\<lparr>o_value = 0, o_script = nulldataScript demoPubkey\<rparr>,
         \<lparr>o_value = 0, o_script = nulldataScript [97, 32, 98]\<rparr>]\<rparr>"

text \<open>A run of \<open>genLockTx\<close>: one coin of 100000 satoshi, the name \<open>alice\<close>, an
  upfront fee of 1000, a locked fee of 2000, a fee rate of 1000 satoshi per kilobyte.\<close>

definition demoLockTx :: "js_error + tx" where
  "demoLockTx =
     genLockTx demoEnv demoRing demoCoins ''alice'' 1000 2000 1000 serviceAddr0 escrowAddr"

text \<open>A run of \<open>genUnlockTx\<close> on the four-output transaction, with the redeem script
  of the owner's key ring and a relative locktime of 10.\<close>

definition demoUnlockTx :: "js_error + tx" where
  "demoUnlockTx =
     genUnlockTx demoEnv demoRing fourOutputTx 10 (genRedeemScript demoEnv demoRing 10) 1000"

text \<open>The index of the test suite: two transactions, of one and of three outputs, with
  the spent flags \<open>[true]\<close> and \<open>[false, true, false]\<close>.\<close>

definition oneOutputTx :: tx where
  "oneOutputTx =
     \<lparr>version = 1, inputs = [],
      outputs = [\<lparr>o_value = 500, o_script = p2pkhScript (addr_hash ownerAddr)\<rparr>]\<rparr>"

definition threeOutputTx :: tx where
  "threeOutputTx =
     \<lparr>version = 1, inputs = [],
      outputs =
        [\<lparr>o_value = 0, o_script = nulldataScript demoPubkey\<rparr>,
         \<lparr>o_value = 1000, o_script = p2pkhScript (addr_hash serviceAddr0)\<rparr>,
         \<lparr>o_value = 2000, o_script = p2shScript (addr_hash escrowAddr)\<rparr>]\<rparr>"

definition demoList :: TXList where
  "demoList =
     \<lparr>l_txs = [oneOutputTx, threeOutputTx],
      l_outputsSpent = [[True], [False, True, False]],
      l_heights = [1, 1]\<rparr>"

section \<open>The verifier: what it returns\<close>

lemma nth_opt_Some_length: "nth_opt xs i = Some x \<Longrightarrow> i < length xs"
  by (simp add: nth_opt_def split: if_splits)

lemma nth_opt_in_range: "i < length xs \<Longrightarrow> nth_opt xs i = Some (xs ! i)"
  by (simp add: nth_opt_def)

lemma nth_opt_out_of_range: "length xs \<le> i \<Longrightarrow> nth_opt xs i = None"
  by (simp add: nth_opt_def)

lemma uriSafeChar_spec: "uriSafeChar c = (specSafeChar c \<or> c = CHR ''-'')"
  by (auto simp: uriSafeChar_def specSafeChar_def Let_def)

lemma isURISafe_spec:
  "isURISafe str = list_all (\<lambda>c. specSafeChar c \<or> c = CHR ''-'') str"
proof -
  have "uriSafeChar = (\<lambda>c. specSafeChar c \<or> c = CHR ''-'')"
    by (rule ext) (rule uriSafeChar_spec)
  then show ?thesis by (simp add: isURISafe_def)
qed

lemma verifyLockTX_count: "4 \<le> length (outputs t) \<Longrightarrow> verifyLockTX E t a = Inr False"
  by (simp add: verifyLockTX_def)

lemma verifyLockTX_cases:
  "verifyLockTX E t a = Inr False \<or> verifyLockTX E t a = Inl TypeError"
proof (cases "4 \<le> length (outputs t)")
  case True
  then show ?thesis by (simp add: verifyLockTX_def)
next
  case False
  then have "nth_opt (outputs t) 3 = None" by (simp add: nth_opt_def)
  then show ?thesis by (simp add: verifyLockTX_def split: option.split)
qed

text \<open>
  Claim C1. For every transaction and service address, \<open>verifyLockTX\<close> returns false
  when the transaction has 5 or more outputs, and the count check does not by itself
  reject a transaction with at most 4 outputs. The first half holds
  (\<open>verifyLockTX_count\<close>). The second half fails on the code: the check is
  \<open>tx.outputs.length >= 4\<close>, so a transaction with exactly four outputs, the very
  layout whose output 3 the function goes on to read, is rejected by the count check.
\<close>

theorem C1_four_outputs_rejected:
  "length (outputs fourOutputTx) = 4 \<and>
   verifyLockTX demoEnv fourOutputTx serviceAddr0 = Inr False"
  by (simp add: verifyLockTX_def fourOutputTx_def)

text \<open>
  Claim C9. \<open>verifyLockTX\<close> never returns true: four or more outputs are rejected by
  the count check, and with fewer than four outputs there is no output 3, so the
  function returns false or stops at a read on \<open>undefined\<close>.
\<close>

theorem C9_never_true:
  "verifyLockTX E t serviceAddr \<noteq> Inr True \<and>
   (if 4 \<le> length (outputs t) then verifyLockTX E t serviceAddr = Inr False
    else nth_opt (outputs t) 3 = None \<and>
         (verifyLockTX E t serviceAddr = Inr False \<or>
          verifyLockTX E t serviceAddr = Inl TypeError))"
proof -
  have never: "verifyLockTX E t serviceAddr \<noteq> Inr True"
    using verifyLockTX_cases [of E t serviceAddr] by auto
  show ?thesis
  proof (cases "4 \<le> length (outputs t)")
    case True
    then show ?thesis using never by (simp add: verifyLockTX_count)
  next
    case False
    then have "nth_opt (outputs t) 3 = None" by (simp add: nth_opt_out_of_range)
    then show ?thesis using False never verifyLockTX_cases [of E t serviceAddr] by simp
  qed
qed

lemma verifyLockTX_bad_name:
  assumes o1: "nth_opt (outputs t) 1 = Some out1"
    and p1: "nth_opt (code (o_script out1)) 1 = Some op1"
    and d1: "op_data op1 = Some name"
    and bad: "64 < length name \<or> \<not> isURISafe (toStringAscii E name)"
  shows "verifyLockTX E t a = Inr False"
proof (cases "4 \<le> length (outputs t)")
  case True
  then show ?thesis by (rule verifyLockTX_count)
next
  case False
  from o1 have "1 < length (outputs t)" by (rule nth_opt_Some_length)
  then have "0 < length (outputs t)" by auto
  then have o0: "nth_opt (outputs t) 0 = Some (outputs t ! 0)" by (rule nth_opt_in_range)
  show ?thesis
  proof (cases "isValidOP_RETURN E (outputs t ! 0)")
    case False
    with \<open>\<not> 4 \<le> length (outputs t)\<close> o0 show ?thesis by (simp add: verifyLockTX_def)
  next
    case True
    then have "length (code (o_script (outputs t ! 0))) = 2"
      by (simp add: isValidOP_RETURN_def split: if_splits)
    then have c0: "nth_opt (code (o_script (outputs t ! 0))) 1 =
        Some (code (o_script (outputs t ! 0)) ! 1)"
      by (simp add: nth_opt_def)
    from bad show ?thesis
      using \<open>\<not> 4 \<le> length (outputs t)\<close> o0 True c0 o1 p1 d1
      by (auto simp: verifyLockTX_def)
  qed
qed

lemma verifyLockTX_good_name:
  assumes few: "length (outputs t) < 4"
    and o0: "nth_opt (outputs t) 0 = Some out0" and v0: "isValidOP_RETURN E out0"
    and p0: "nth_opt (code (o_script out0)) 1 = Some op0"
    and k0: "publicKeyVerify E (op_data op0)"
    and o1: "nth_opt (outputs t) 1 = Some out1" and v1: "isValidOP_RETURN E out1"
    and p1: "nth_opt (code (o_script out1)) 1 = Some op1"
    and d1: "op_data op1 = Some name"
    and good: "length name \<le> 64" "isURISafe (toStringAscii E name)"
  shows "verifyLockTX E t a = verifyLockTX_tail E t a"
  using assms by (simp add: verifyLockTX_def verifyLockTX_tail_def)

text \<open>
  Claim C5, as amended. The class the verifier tests is \<open>[a-zA-Z0-9_\-\.\~]\<close>: the
  specification's class and the hyphen. For every transaction whose output-1 pushed
  data is longer than 64 bytes or decodes to a string with a character outside that
  class (a space, for example), \<open>verifyLockTX\<close> returns false; and when the data is at
  most 64 bytes and decodes to a string of that class, the name passes: with outputs 0
  and 1 well formed, the function goes on to the checks of outputs 2 and 3.
\<close>

theorem C5_name_checks:
  assumes "nth_opt (outputs t) 1 = Some out1"
    and "nth_opt (code (o_script out1)) 1 = Some op1"
    and "op_data op1 = Some name"
  shows "(64 < length name \<or>
            \<not> list_all (\<lambda>c. specSafeChar c \<or> c = CHR ''-'') (toStringAscii E name)
          \<longrightarrow> verifyLockTX E t serviceAddr = Inr False) \<and>
         (length name \<le> 64 \<and>
            list_all (\<lambda>c. specSafeChar c \<or> c = CHR ''-'') (toStringAscii E name)
          \<longrightarrow> length (outputs t) < 4
          \<longrightarrow> isValidOP_RETURN E out1
          \<longrightarrow> (\<exists>out0 op0. nth_opt (outputs t) 0 = Some out0 \<and> isValidOP_RETURN E out0 \<and>
                 nth_opt (code (o_script out0)) 1 = Some op0 \<and>
                 publicKeyVerify E (op_data op0))
          \<longrightarrow> verifyLockTX E t serviceAddr = verifyLockTX_tail E t serviceAddr)"
  using assms verifyLockTX_bad_name [of t out1 op1 name E serviceAddr]
    verifyLockTX_good_name [of t _ E _ out1 op1 name serviceAddr]
  by (auto simp: isURISafe_spec)

text \<open>
  Claim C5 as the specification states it fails at the name \<open>a-b\<close>: the hyphen is
  outside \<open>[A-Za-z0-9_.~]\<close>, yet the name passes both checks, and the function stops at
  the read of the missing output 2 instead of returning false.
\<close>

theorem C5_counterexample:
  "\<not> list_all specSafeChar (toStringAscii demoEnv [97, 45, 98]) \<and>
   nth_opt (outputs hyphenTx) 1 =
     Some \<lparr>o_value = 0, o_script = nulldataScript [97, 45, 98]\<rparr> \<and>
   verifyLockTX demoEnv hyphenTx serviceAddr0 = Inl TypeError"
  by code_simp

text \<open>The amended claim at work: the name \<open>a b\<close> is rejected, the name \<open>a-b\<close>
  passes.\<close>

theorem C5_name_checks_witness:
  "verifyLockTX demoEnv spaceTx serviceAddr0 = Inr False \<and>
   verifyLockTX demoEnv hyphenTx serviceAddr0 = verifyLockTX_tail demoEnv hyphenTx serviceAddr0"
proof -
  let ?sp = "\<lparr>o_value = 0, o_script = nulldataScript [97, 32, 98]\<rparr>"
  let ?hy = "\<lparr>o_value = 0, o_script = nulldataScript [97, 45, 98]\<rparr>"
  let ?k = "\<lparr>o_value = 0, o_script = nulldataScript demoPubkey\<rparr>"
  have s1: "nth_opt (outputs spaceTx) 1 = Some ?sp"
    by (simp add: spaceTx_def nth_opt_def)
  have s2: "nth_opt (code (o_script ?sp)) 1 = Some (dataOp [97, 32, 98])"
    by (simp add: nulldataScript_def mkScript_def nth_opt_def)
  have s3: "op_data (dataOp [97, 32, 98]) = Some [97, 32, 98]"
    by (simp add: dataOp_def)
  have s4: "\<not> list_all (\<lambda>c. specSafeChar c \<or> c = CHR ''-'') (toStringAscii demoEnv [97, 32, 98])"
    by code_simp
  have h1: "nth_opt (outputs hyphenTx) 1 = Some ?hy"
    by (simp add: hyphenTx_def nth_opt_def)
  have h2: "nth_opt (code (o_script ?hy)) 1 = Some (dataOp [97, 45, 98])"
    by (simp add: nulldataScript_def mkScript_def nth_opt_def)
  have h3: "op_data (dataOp [97, 45, 98]) = Some [97, 45, 98]"
    by (simp add: dataOp_def)
  have h4: "length [97, 45, 98 :: 8 word] \<le> 64 \<and>
      list_all (\<lambda>c. specSafeChar c \<or> c = CHR ''-'') (toStringAscii demoEnv [97, 45, 98])"
    by code_simp
  have h5: "length (outputs hyphenTx) < 4" by (simp add: hyphenTx_def)
  have h6: "isValidOP_RETURN demoEnv ?hy" by code_simp
  have h7: "nth_opt (outputs hyphenTx) 0 = Some ?k \<and> isValidOP_RETURN demoEnv ?k \<and>
      nth_opt (code (o_script ?k)) 1 = Some (dataOp demoPubkey) \<and>
      publicKeyVerify demoEnv (op_data (dataOp demoPubkey))"
    by code_simp
  from C5_name_checks [OF s1 s2 s3, of demoEnv serviceAddr0] s4
  have a: "verifyLockTX demoEnv spaceTx serviceAddr0 = Inr False" by blast
  from C5_name_checks [OF h1 h2 h3, of demoEnv serviceAddr0] h4 h5 h6 h7
  have b: "verifyLockTX demoEnv hyphenTx serviceAddr0 = verifyLockTX_tail demoEnv hyphenTx serviceAddr0"
    by blast
  from a b show ?thesis by simp
qed

section \<open>The builders: what they produce\<close>

lemma addOutput_Inr:
  "addOutput E out t = Inr t' \<Longrightarrow> t' = t\<lparr>outputs := outputs t @ [out]\<rparr>"
  by (simp add: addOutput_def split: if_splits)

lemma addOutput_valid:
  "validValue E (o_value out) \<Longrightarrow> addOutput E out t = Inr (t\<lparr>outputs := outputs t @ [out]\<rparr>)"
  by (simp add: addOutput_def)

lemma outputs_addCoins: "outputs (foldl (\<lambda>t c. addCoin c t) t0 coins) = outputs t0"
  by (induction coins arbitrary: t0) (simp_all add: addCoin_def)

lemma outputs_setInputScript: "outputs (setInputScript i s t) = outputs t"
  by (simp add: setInputScript_def)

lemma outputs_scriptInputs: "outputs (scriptInputs E ring i coins t) = outputs t"
  by (induction coins arbitrary: i t) (simp_all add: outputs_setInputScript)

lemma outputs_signInputs: "outputs (signInputs E ring i coins t) = outputs t"
  by (induction coins arbitrary: i t) (simp_all add: outputs_setInputScript)

lemma coinsTotal_sum: "coinsTotal coins = sum_list (map c_value coins)"
proof -
  have "foldl (\<lambda>acc cur. acc + c_value cur) a coins = a + sum_list (map c_value coins)" for a
    by (induction coins arbitrary: a) simp_all
  then show ?thesis by (simp add: coinsTotal_def)
qed

lemma genLockTx_outputs_Inr:
  assumes "genLockTx_outputs E ring coins name upfrontFee lockedFee serviceAddr p2shAddr = Inr t"
  shows "outputs t =
    [\<lparr>o_value = changeVal coins upfrontFee lockedFee, o_script = fromAddress E (getAddress ring)\<rparr>,
     \<lparr>o_value = opRetVal, o_script = fromNulldata E (fromUtf8 E name)\<rparr>,
     \<lparr>o_value = upfrontFee, o_script = fromAddress E serviceAddr\<rparr>,
     \<lparr>o_value = lockedFee, o_script = fromAddress E p2shAddr\<rparr>]"
  using assms
  by (auto simp: genLockTx_outputs_def Let_def outputs_addCoins newMTX_def
      split: sum.splits dest!: addOutput_Inr)

text \<open>The first part of \<open>genLockTx\<close> returns whenever the library accepts the four
  values.\<close>

lemma genLockTx_outputs_returns:
  assumes "validValue E (changeVal coins upfrontFee lockedFee)" and "validValue E opRetVal"
    and "validValue E upfrontFee" and "validValue E lockedFee"
  shows "\<exists>t. genLockTx_outputs E ring coins name upfrontFee lockedFee serviceAddr p2shAddr = Inr t"
  using assms by (simp add: genLockTx_outputs_def Let_def addOutput_def)


lemma firstPass_scripts:
  "firstPass E share outs = Some outs' \<Longrightarrow> map o_script outs' = map o_script outs"
  by (induction outs arbitrary: outs') (auto split: if_splits)

lemma secondPass_scripts:
  "secondPass E left outs = Some outs' \<Longrightarrow> map o_script outs' = map o_script outs"
  by (induction outs arbitrary: outs') (auto split: if_splits)

text \<open>\<open>subtractFee\<close> changes values only: the scripts of the outputs, their number
  and the inputs stay.\<close>

lemma subtractFee_keeps:
  assumes "subtractFee E fee i t = Inr t'"
  shows "map o_script (outputs t') = map o_script (outputs t) \<and>
         inputs t' = inputs t \<and> version t' = version t"
proof -
  from assms obtain share left outs outs' where
    f: "firstPass E share (outputs t) = Some outs"
    and g: "secondPass E left outs = Some outs'"
    and t': "t' = t\<lparr>outputs := outs'\<rparr>"
    by (auto simp: subtractFee_def Let_def split: if_splits option.splits)
  from firstPass_scripts [OF f] secondPass_scripts [OF g] t' show ?thesis by simp
qed

text \<open>On a transaction with a single output the whole fee comes from that output.\<close>

lemma subtractFee_single:
  assumes "subtractFee E fee i t = Inr t'" and "outputs t = [out]"
  shows "outputs t' = [out\<lparr>o_value := o_value out - fee\<rparr>]"
proof (cases "isUnspendable E (o_script out)")
  case True
  with assms show ?thesis by (simp add: subtractFee_def)
next
  case False
  have "jsRem fee 1 = 0" by (simp add: jsRem_def)
  with assms False show ?thesis
    by (auto simp: subtractFee_def Let_def split: if_splits)
qed

lemma firstPass_sum:
  "firstPass E share outs = Some outs' \<Longrightarrow>
     sum_list (map o_value outs') =
       sum_list (map o_value outs) -
         share * int (length (filter (\<lambda>out. \<not> isUnspendable E (o_script out)) outs))"
  by (induction outs arbitrary: outs') (auto split: if_splits simp: algebra_simps)

lemma secondPass_sum:
  "secondPass E left outs = Some outs' \<Longrightarrow>
     sum_list (map o_value outs') = sum_list (map o_value outs) - left"
  by (induction outs arbitrary: outs') (auto split: if_splits)

lemma jsRem_share: "0 < n \<Longrightarrow> (fee - jsRem fee n) div n * n + jsRem fee n = fee"
proof -
  assume n: "0 < n"
  have "n dvd (fee - jsRem fee n)"
  proof (cases "0 \<le> fee")
    case True
    then have "jsRem fee n = fee mod n" using n by (cases "fee = 0") (simp_all add: jsRem_def)
    then show ?thesis by simp
  next
    case False
    then have "jsRem fee n = - ((- fee) mod n)" using n by (simp add: jsRem_def)
    then have "fee - jsRem fee n = - ((- fee) - (- fee) mod n)" by simp
    then show ?thesis by (simp only: dvd_minus_iff dvd_minus_mod)
  qed
  then show ?thesis by simp
qed

text \<open>\<open>subtractFee\<close> takes the fee, all of it and no more, from the outputs.\<close>

lemma subtractFee_sum:
  assumes "subtractFee E fee i t = Inr t'"
  shows "sum_list (map o_value (outputs t')) = sum_list (map o_value (outputs t)) - fee"
proof -
  let ?n = "int (length (filter (\<lambda>out. \<not> isUnspendable E (o_script out)) (outputs t)))"
  let ?left = "jsRem fee ?n"
  let ?share = "(fee - ?left) div ?n"
  from assms have n: "0 < ?n"
    by (auto simp: subtractFee_def Let_def split: if_splits)
  from assms obtain outs outs' where
    f: "firstPass E ?share (outputs t) = Some outs"
    and g: "secondPass E ?left outs = Some outs'"
    and t': "t' = t\<lparr>outputs := outs'\<rparr>"
    by (auto simp: subtractFee_def Let_def split: if_splits option.splits)
  from firstPass_sum [OF f] secondPass_sum [OF g] t'
  have "sum_list (map o_value (outputs t')) =
      sum_list (map o_value (outputs t)) - (?share * ?n + ?left)"
    by simp
  with jsRem_share [OF n, of fee] show ?thesis by simp
qed

text \<open>The layout of the lock transaction, for every environment: the change to the
  owner first, then the name, the payment to the service and the payment to the escrow
  address.\<close>

lemma genLockTx_scripts:
  assumes "genLockTx E ring coins name upfrontFee lockedFee feeRate serviceAddr p2shAddr = Inr t"
  shows "map o_script (outputs t) =
    [fromAddress E (getAddress ring), fromNulldata E (fromUtf8 E name),
     fromAddress E serviceAddr, fromAddress E p2shAddr]"
proof -
  from assms obtain t0 where
    t0: "genLockTx_outputs E ring coins name upfrontFee lockedFee serviceAddr p2shAddr = Inr t0"
    and fin: "genLockTx_finish E ring coins feeRate t0 = Inr t"
    by (auto simp: genLockTx_def split: sum.splits)
  let ?t1 = "scriptInputs E ring 0 coins t0"
  let ?fee = "ceilFee E (getVirtualSize E ?t1 + length coins * 72) feeRate"
  from fin obtain t2 where sub: "subtractFee E ?fee 0 ?t1 = Inr t2"
    and t: "t = signInputs E ring 0 coins t2"
    by (auto simp: genLockTx_finish_def Let_def split: sum.splits)
  from subtractFee_keeps [OF sub]
  have "map o_script (outputs t2) = map o_script (outputs t0)"
    by (simp add: outputs_scriptInputs)
  then have "map o_script (outputs t) = map o_script (outputs t0)"
    using t by (simp add: outputs_signInputs)
  then show ?thesis using genLockTx_outputs_Inr [OF t0] by simp
qed

text \<open>After the fee the outputs of the lock transaction sum to the total of the coins
  minus the fee.\<close>

lemma genLockTx_sum:
  assumes t0: "genLockTx_outputs E ring coins name upfrontFee lockedFee serviceAddr p2shAddr = Inr t0"
    and t: "genLockTx E ring coins name upfrontFee lockedFee feeRate serviceAddr p2shAddr = Inr t"
  shows "sum_list (map o_value (outputs t)) =
    sum_list (map c_value coins) -
      ceilFee E (getVirtualSize E (scriptInputs E ring 0 coins t0) + length coins * 72) feeRate"
proof -
  let ?t1 = "scriptInputs E ring 0 coins t0"
  let ?fee = "ceilFee E (getVirtualSize E ?t1 + length coins * 72) feeRate"
  from t t0 have fin: "genLockTx_finish E ring coins feeRate t0 = Inr t"
    by (simp add: genLockTx_def)
  then obtain t2 where sub: "subtractFee E ?fee 0 ?t1 = Inr t2"
    and t2: "t = signInputs E ring 0 coins t2"
    by (auto simp: genLockTx_finish_def Let_def split: sum.splits)
  from subtractFee_sum [OF sub]
  have "sum_list (map o_value (outputs t)) = sum_list (map o_value (outputs t0)) - ?fee"
    by (simp add: t2 outputs_signInputs outputs_scriptInputs)
  then show ?thesis
    using genLockTx_outputs_Inr [OF t0]
    by (simp add: changeVal_def opRetVal_def coinsTotal_sum)
qed

lemma not_isl_Inr: "\<not> isl x \<Longrightarrow> \<exists>y. x = Inr y"
  by (cases x) simp_all

lemma demoLockTx_runs: "\<not> isl demoLockTx"
  by code_simp

text \<open>
  Claim C2. The lock transaction built by \<open>genLockTx\<close> has four outputs: output 0 a
  null-data output of zero value committing to the owner's public key, output 1 a
  null-data output committing to the name, output 2 paying the upfront fee to the
  service, output 3 paying the locked fee to the escrow address. On the run
  \<open>demoLockTx\<close> the code builds four outputs of which output 0 is the change, a
  payment to the owner's address and not a null-data output; and the network fee, 366
  here, is taken in shares of 122 from outputs 0, 2 and 3, so that outputs 2 and 3 pay
  less than the two fees of 1000 and 2000.
\<close>

theorem C2_output0_is_change:
  "\<not> isl demoLockTx \<and>
   map o_script (outputs (projr demoLockTx)) =
     [p2pkhScript (addr_hash ownerAddr), nulldataScript [97, 108, 105, 99, 101],
      p2pkhScript (addr_hash serviceAddr0), p2shScript (addr_hash escrowAddr)] \<and>
   \<not> isNulldata demoEnv (o_script (outputs (projr demoLockTx) ! 0)) \<and>
   map o_value (outputs (projr demoLockTx)) = [96877, 1, 878, 1878]"
  by code_simp

text \<open>The same outputs with a fee of 274: shares of 91 and a remainder of 1, which
  output 0 gives.\<close>

lemma subtractFee_274:
  "map o_value (outputs (projr (subtractFee demoEnv 274 0 (projr
     (genLockTx_outputs demoEnv demoRing demoCoins ''alice'' 1000 2000 serviceAddr0 escrowAddr))))) =
   [96907, 1, 909, 1909]"
  by code_simp

text \<open>
  Claim C4. The null-data output committing to the name carries zero value. On the run
  \<open>demoLockTx\<close> the code gives that output the value 1 (the constant \<open>opRetVal\<close>),
  which the verifier's own \<open>isValidOP_RETURN\<close> rejects.
\<close>

theorem C4_name_output_value:
  "\<not> isl demoLockTx \<and>
   o_script (outputs (projr demoLockTx) ! 1) = nulldataScript [97, 108, 105, 99, 101] \<and>
   o_value (outputs (projr demoLockTx) ! 1) = 1 \<and>
   \<not> isValidOP_RETURN demoEnv (outputs (projr demoLockTx) ! 1)"
  by code_simp



lemma code_unlockScript:
  "code (unlockScript E ring t redeemScript val) =
     [fromData E (signature E t 0 redeemScript val (getPrivateKey ring)),
      fromInt E 1, fromData E (raw redeemScript)]"
  by (simp add: unlockScript_def Let_def compile_def pushData_def pushInt_def emptyScript_def)

text \<open>\<open>genUnlockTx\<close> reads \<open>lockTx.outputs[3].value\<close> first: a lock transaction with
  fewer than four outputs stops it.\<close>

lemma genUnlockTx_too_few:
  "length (outputs lockTx) < 4 \<Longrightarrow>
     genUnlockTx E ring lockTx locktime redeemScript feeRate = Inl TypeError"
  by (simp add: genUnlockTx_def nth_opt_def)

text \<open>
  Claim C6. The transaction built by \<open>genUnlockTx\<close> spends output 3 of the lock
  transaction as its sole input, pays the value of that output minus the fee to the
  owner's address as its sole output, and its input script pushes, in order, a signature
  made with the owner's key, the integer 1 and the serialised redeem script. The
  signature is the one made last, over the transaction \<open>u2\<close> that already has the
  final output.
\<close>

theorem C6_unlock_tx:
  assumes "genUnlockTx E ring lockTx locktime redeemScript feeRate = Inr u"
  shows "\<exists>out3 u1 u2.
     nth_opt (outputs lockTx) 3 = Some out3 \<and>
     inputs u = [\<lparr>prev_hash = txHash E lockTx, prev_index = 3,
                  i_script = unlockScript E ring u2 redeemScript (o_value out3)\<rparr>] \<and>
     outputs u = [\<lparr>o_value = o_value out3 - ceilFee E (getVirtualSize E u1) feeRate,
                   o_script = fromAddress E (getAddress ring)\<rparr>] \<and>
     code (unlockScript E ring u2 redeemScript (o_value out3)) =
       [fromData E (signature E u2 0 redeemScript (o_value out3) (getPrivateKey ring)),
        fromInt E 1, fromData E (raw redeemScript)] \<and>
     outputs u2 = outputs u"
proof -
  from assms obtain out3 where o3: "nth_opt (outputs lockTx) 3 = Some out3"
    by (auto simp: genUnlockTx_def split: option.splits)
  let ?val = "o_value out3"
  let ?out = "\<lparr>o_value = ?val, o_script = fromAddress E (getAddress ring)\<rparr>"
  let ?u0 = "(addTX E lockTx 3 (newMTX 2))\<lparr>outputs := outputs (addTX E lockTx 3 (newMTX 2)) @ [?out]\<rparr>"
  let ?u1 = "setInputScript 0 (unlockScript E ring ?u0 redeemScript ?val) ?u0"
  let ?fee = "ceilFee E (getVirtualSize E ?u1) feeRate"
  from assms o3 have ok: "validValue E ?val"
    by (auto simp: genUnlockTx_def Let_def addOutput_def split: if_splits)
  from assms o3 ok obtain u2 where sub: "subtractFee E ?fee 0 ?u1 = Inr u2"
    and u: "u = setInputScript 0 (unlockScript E ring u2 redeemScript ?val) u2"
    by (auto simp: genUnlockTx_def Let_def addOutput_def split: sum.splits)
  have out1: "outputs ?u1 = [?out]"
    by (simp add: outputs_setInputScript addTX_def newMTX_def)
  have in1: "inputs ?u1 = [\<lparr>prev_hash = txHash E lockTx, prev_index = 3,
      i_script = unlockScript E ring ?u0 redeemScript ?val\<rparr>]"
    by (simp add: setInputScript_def addTX_def newMTX_def)
  from subtractFee_single [OF sub out1]
  have out2: "outputs u2 = [\<lparr>o_value = ?val - ?fee, o_script = fromAddress E (getAddress ring)\<rparr>]"
    by simp
  from subtractFee_keeps [OF sub] in1
  have in2: "inputs u2 = [\<lparr>prev_hash = txHash E lockTx, prev_index = 3,
      i_script = unlockScript E ring ?u0 redeemScript ?val\<rparr>]"
    by simp
  have outs: "outputs u = outputs u2" by (simp add: u outputs_setInputScript)
  have ins: "inputs u = [\<lparr>prev_hash = txHash E lockTx, prev_index = 3,
      i_script = unlockScript E ring u2 redeemScript ?val\<rparr>]"
    by (simp add: u setInputScript_def in2)
  show ?thesis
    apply (rule exI [of _ out3])
    apply (rule exI [of _ ?u1])
    apply (rule exI [of _ u2])
    apply (simp only: o3 ins outs out2 code_unlockScript)
    done
qed

text \<open>Claim C6 on the run \<open>demoUnlockTx\<close>: one input spending output 3, one output
  of 2000 minus the fee of 192, an input script of three pushes.\<close>

theorem C6_unlock_tx_witness:
  "\<not> isl demoUnlockTx \<and>
   map prev_index (inputs (projr demoUnlockTx)) = [3] \<and>
   map o_value (outputs (projr demoUnlockTx)) = [1808] \<and>
   map (\<lambda>i. length (code (i_script i))) (inputs (projr demoUnlockTx)) = [3]"
proof -
  have "\<not> isl demoUnlockTx" by code_simp
  then obtain u where u: "demoUnlockTx = Inr u" by (blast dest: not_isl_Inr)
  have v: "map o_value (outputs (projr demoUnlockTx)) = [1808]" by code_simp
  from C6_unlock_tx [OF u [unfolded demoUnlockTx_def]]
  have "map prev_index (inputs u) = [3] \<and>
      map (\<lambda>i. length (code (i_script i))) (inputs u) = [3]"
    by (elim exE conjE) simp
  then show ?thesis using v by (simp add: u)
qed

lemma code_makeEncumberScript:
  "code (makeEncumberScript E userPubkey servicePubkey rlocktime) =
     [fromSymbol E ''OP_IF'', fromData E userPubkey, fromSymbol E ''OP_CHECKSIG'',
      fromSymbol E ''OP_ELSE'', fromData E (locktimeData rlocktime),
      fromSymbol E ''OP_CHECKSEQUENCEVERIFY'', fromSymbol E ''OP_DROP'',
      fromData E servicePubkey, fromSymbol E ''OP_CHECKSIG'', fromSymbol E ''OP_ENDIF'']"
  by (simp add: makeEncumberScript_def Let_def compile_def pushSym_def pushData_def
      emptyScript_def)

lemma raw_makeEncumberScript:
  "raw (makeEncumberScript E userPubkey servicePubkey rlocktime) =
     encode E (code (makeEncumberScript E userPubkey servicePubkey rlocktime))"
  by (simp add: makeEncumberScript_def Let_def compile_def)

text \<open>
  Claim C7. Two calls of \<open>makeEncumberScript\<close> with identical arguments produce
  byte-identical compiled scripts. The function reads nothing but its arguments: the
  compiled bytes are the library's encoding of ten opcodes fixed by the two keys and the
  locktime.
\<close>

theorem C7_deterministic:
  assumes "userPubkey' = userPubkey" and "servicePubkey' = servicePubkey"
    and "rlocktime' = rlocktime"
  shows "raw (makeEncumberScript E userPubkey' servicePubkey' rlocktime') =
           raw (makeEncumberScript E userPubkey servicePubkey rlocktime) \<and>
         raw (makeEncumberScript E userPubkey servicePubkey rlocktime) =
           encode E
             [fromSymbol E ''OP_IF'', fromData E userPubkey, fromSymbol E ''OP_CHECKSIG'',
              fromSymbol E ''OP_ELSE'', fromData E (locktimeData rlocktime),
              fromSymbol E ''OP_CHECKSEQUENCEVERIFY'', fromSymbol E ''OP_DROP'',
              fromData E servicePubkey, fromSymbol E ''OP_CHECKSIG'', fromSymbol E ''OP_ENDIF'']"
  using assms by (simp add: raw_makeEncumberScript code_makeEncumberScript)

text \<open>Claim C7 on two calls whose arguments are written differently and are equal.\<close>

theorem C7_deterministic_witness:
  "raw (makeEncumberScript demoEnv (2 # replicate 32 7) demoPubkey (5 + 5)) =
     raw (makeEncumberScript demoEnv demoPubkey demoPubkey 10) \<and>
   raw (makeEncumberScript demoEnv demoPubkey demoPubkey 10) =
     [99, 33] @ demoPubkey @ [172, 103, 1, 10, 178, 117, 33] @ demoPubkey @ [172, 104]"
proof -
  have a: "2 # replicate 32 7 = demoPubkey" by (simp add: demoPubkey_def)
  have b: "(5 + 5 :: int) = 10" by simp
  have c: "encode demoEnv
             [fromSymbol demoEnv ''OP_IF'', fromData demoEnv demoPubkey, fromSymbol demoEnv ''OP_CHECKSIG'',
              fromSymbol demoEnv ''OP_ELSE'', fromData demoEnv (locktimeData 10),
              fromSymbol demoEnv ''OP_CHECKSEQUENCEVERIFY'', fromSymbol demoEnv ''OP_DROP'',
              fromData demoEnv demoPubkey, fromSymbol demoEnv ''OP_CHECKSIG'', fromSymbol demoEnv ''OP_ENDIF''] =
     [99, 33] @ demoPubkey @ [172, 103, 1, 10, 178, 117, 33] @ demoPubkey @ [172, 104]"
    by code_simp
  from C7_deterministic [OF a refl b, of demoEnv] c show ?thesis by simp
qed

text \<open>
  Claim C3. The data pushed before \<open>OP_CHECKSEQUENCEVERIFY\<close> is the little-endian
  encoding of the locktime with trailing zero bytes stripped down to two bytes, so that
  0x0100 gives its two bytes. On the code the loop leaves \<open>min\<close> at the index of the last
  byte to keep, and \<open>numBuff.slice(0, min)\<close> stops one byte short: for 0x0100 the single
  byte 00 is pushed, where the specification's encoding is 00 01.
\<close>

theorem C3_locktime_0x0100:
  "locktimeData 256 = [0] \<and>
   spec_locktimeEncoding 256 = [0, 1] \<and>
   nth_opt (code (makeEncumberScript E userPubkey servicePubkey 256)) 4 = Some (fromData E [0]) \<and>
   nth_opt (code (makeEncumberScript E userPubkey servicePubkey 256)) 5 =
     Some (fromSymbol E ''OP_CHECKSEQUENCEVERIFY'')"
proof -
  have a: "locktimeData 256 = [0]" by code_simp
  have b: "spec_locktimeEncoding 256 = [0, 1]" by code_simp
  show ?thesis by (simp add: a b code_makeEncumberScript nth_opt_def)
qed

lemma strip_bytes:
  "take (stripLoop [b0, b1, b2, b3, b4, b5, b6, b7] 7) [b0, b1, b2, b3, b4, b5, b6, b7] =
   butlast (take 2 [b0, b1, b2, b3, b4, b5, b6, b7] @
     rev (dropWhile (\<lambda>b. b = 0) (rev (drop 2 [b0, b1, b2, b3, b4, b5, b6, b7]))))"
  by (simp add: nth_opt_def)

lemma toLE_bytes:
  "toLE w = [ucast w, ucast (drop_bit 8 w), ucast (drop_bit 16 w), ucast (drop_bit 24 w),
     ucast (drop_bit 32 w), ucast (drop_bit 40 w), ucast (drop_bit 48 w), ucast (drop_bit 56 w)]"
  by (simp add: toLE_def upt_rec)

text \<open>For every locktime the pushed data is the specification's encoding without its
  last byte.\<close>

lemma locktimeData_drops_last_byte:
  "locktimeData v = butlast (spec_locktimeEncoding v)"
proof -
  obtain b0 b1 b2 b3 b4 b5 b6 b7 where
    bs: "toLE (I64 v) = [b0, b1, b2, b3, b4, b5, b6, b7]"
    using toLE_bytes [of "I64 v"] by blast
  have len: "length [b0, b1, b2, b3, b4, b5, b6, b7] - 1 = 7" by simp
  show ?thesis
    unfolding locktimeData_def spec_locktimeEncoding_def Let_def bs len
    by (rule strip_bytes)
qed

section \<open>The transaction history index: lookups\<close>

lemma map_of_zip_first:
  "length ks = length vs \<Longrightarrow> k \<in> set ks \<Longrightarrow>
     map_of (zip ks vs) k = Some (vs ! length (takeWhile (\<lambda>x. x \<noteq> k) ks))"
proof (induction ks arbitrary: vs)
  case Nil
  then show ?case by simp
next
  case (Cons a ks)
  then obtain v vs' where vs: "vs = v # vs'" by (cases vs) auto
  with Cons show ?case by auto
qed

lemma map_of_zip_None:
  "length ks = length vs \<Longrightarrow> k \<notin> set ks \<Longrightarrow> map_of (zip ks vs) k = None"
  by simp

lemma first_index_props:
  "k \<in> set ks \<Longrightarrow> length (takeWhile (\<lambda>x. x \<noteq> k) ks) < length ks \<and>
     ks ! length (takeWhile (\<lambda>x. x \<noteq> k) ks) = k"
  by (induction ks) auto

lemma checkOutputs_None:
  "checkOutputs E txs ss = None \<Longrightarrow> length txs = length ss \<Longrightarrow> i < length txs \<Longrightarrow>
     length (ss ! i) = length (outputs (txs ! i))"
proof (induction E txs ss arbitrary: i rule: checkOutputs.induct)
  case (1 E t ts s ss)
  then show ?case by (cases i) (auto split: if_splits)
qed simp_all

lemma newTXList_Inr:
  assumes "newTXList E txs outputsSpent heights = Inr L"
  shows "L = \<lparr>l_txs = txs, l_outputsSpent = outputsSpent, l_heights = heights\<rparr> \<and>
         length txs = length outputsSpent \<and> length txs = length heights \<and>
         checkOutputs E txs outputsSpent = None"
  using assms by (auto simp: newTXList_def split: if_splits option.splits)

text \<open>
  Claim C8. For every index built by the constructor, every id and every index:
  \<open>getOutputSpent\<close> fails with \<open>UnknownTxid\<close> exactly when the id is not a known
  transaction id; for a known id it fails with \<open>UnknownOutput\<close>, naming the index and
  the id, exactly when the index is out of range for the output count of that
  transaction; otherwise it returns the stored spent flag.
\<close>

theorem C8_getOutputSpent:
  assumes "newTXList E txs outputsSpent heights = Inr L"
  shows "((getOutputSpent E L ident index = Inl (UnknownTxid ident)) = (ident \<notin> set (getTxids E L))) \<and>
         ((\<exists>s. getOutputSpent E L ident index = Inl (UnknownTxid s)) = (ident \<notin> set (getTxids E L))) \<and>
         (ident \<in> set (getTxids E L) \<longrightarrow>
            (\<exists>i < length txs. txid E (txs ! i) = ident \<and> getTX E L ident = Inr (txs ! i) \<and>
               ((\<exists>n s. getOutputSpent E L ident index = Inl (UnknownOutput n s)) =
                  (index < 0 \<or> int (length (outputs (txs ! i))) \<le> index)) \<and>
               (index < 0 \<or> int (length (outputs (txs ! i))) \<le> index \<longrightarrow>
                  getOutputSpent E L ident index = Inl (UnknownOutput index ident)) \<and>
               (0 \<le> index \<and> index < int (length (outputs (txs ! i))) \<longrightarrow>
                  getOutputSpent E L ident index = Inr (outputsSpent ! i ! nat index))))"
proof -
  from newTXList_Inr [OF assms] have L: "L = \<lparr>l_txs = txs, l_outputsSpent = outputsSpent, l_heights = heights\<rparr>"
    and len: "length txs = length outputsSpent" and chk: "checkOutputs E txs outputsSpent = None"
    by simp_all
  let ?ids = "map (txid E) txs"
  have ids: "getTxids E L = ?ids" by (simp add: getTxids_def L)
  show ?thesis
  proof (cases "ident \<in> set ?ids")
    case False
    then have "map_of (zip ?ids outputsSpent) ident = None"
      using len by (simp add: map_of_zip_None)
    then have "getOutputSpent E L ident index = Inl (UnknownTxid ident)"
      by (simp add: getOutputSpent_def getTxids_def L)
    then show ?thesis using False by (simp add: ids)
  next
    case True
    let ?i = "length (takeWhile (\<lambda>x. x \<noteq> ident) ?ids)"
    from first_index_props [OF True] have i: "?i < length txs"
      and idm: "?ids ! ?i = ident"
      by simp_all
    from i have "?ids ! ?i = txid E (txs ! ?i)" by (rule nth_map)
    with idm have idi: "txid E (txs ! ?i) = ident" by simp
    have flags: "map_of (zip ?ids outputsSpent) ident = Some (outputsSpent ! ?i)"
      using len True by (simp add: map_of_zip_first)
    have tx: "map_of (zip ?ids txs) ident = Some (txs ! ?i)"
      using True by (simp add: map_of_zip_first)
    have n: "length (outputsSpent ! ?i) = length (outputs (txs ! ?i))"
      using checkOutputs_None [OF chk len i] .
    have g: "getOutputSpent E L ident index =
        (if 0 \<le> index \<and> index < int (length (outputs (txs ! ?i)))
         then Inr (outputsSpent ! ?i ! nat index) else Inl (UnknownOutput index ident))"
      by (simp add: getOutputSpent_def getTxids_def L flags n)
    have t: "getTX E L ident = Inr (txs ! ?i)"
      by (simp add: getTX_def getTxids_def L tx)
    let ?r = "getOutputSpent E L ident index"
    let ?n = "int (length (outputs (txs ! ?i)))"
    have notid: "?r \<noteq> Inl (UnknownTxid s)" for s
      by (simp add: g)
    have c1: "(\<exists>n s. ?r = Inl (UnknownOutput n s)) = (index < 0 \<or> ?n \<le> index)"
    proof (cases "0 \<le> index \<and> index < ?n")
      case True
      then have "?r = Inr (outputsSpent ! ?i ! nat index)" by (simp add: g)
      then show ?thesis using True by simp
    next
      case False
      then have "?r = Inl (UnknownOutput index ident)" by (simp add: g)
      then show ?thesis using False by auto
    qed
    have c2: "index < 0 \<or> ?n \<le> index \<longrightarrow> ?r = Inl (UnknownOutput index ident)"
      by (auto simp: g)
    have c3: "0 \<le> index \<and> index < ?n \<longrightarrow> ?r = Inr (outputsSpent ! ?i ! nat index)"
      by (simp add: g)
    have known: "\<exists>i < length txs. txid E (txs ! i) = ident \<and> getTX E L ident = Inr (txs ! i) \<and>
               ((\<exists>n s. ?r = Inl (UnknownOutput n s)) =
                  (index < 0 \<or> int (length (outputs (txs ! i))) \<le> index)) \<and>
               (index < 0 \<or> int (length (outputs (txs ! i))) \<le> index \<longrightarrow>
                  ?r = Inl (UnknownOutput index ident)) \<and>
               (0 \<le> index \<and> index < int (length (outputs (txs ! i))) \<longrightarrow>
                  ?r = Inr (outputsSpent ! i ! nat index))"
      using i idi t c1 c2 c3 by (intro exI [of _ ?i] conjI)
    have in_ids: "ident \<in> set (getTxids E L)" using True by (simp only: ids)
    have a1: "(?r = Inl (UnknownTxid ident)) = (ident \<notin> set (getTxids E L))"
      using notid [of ident] in_ids by simp
    have a2: "(\<exists>s. ?r = Inl (UnknownTxid s)) = (ident \<notin> set (getTxids E L))"
      using notid in_ids by simp
    from a1 a2 known show ?thesis by (intro conjI impI)
  qed
qed

text \<open>Claim C8 on the index of the test suite: an unknown id, index 64 on the
  three-output transaction, and its output 1.\<close>

theorem C8_getOutputSpent_witness:
  "newTXList demoEnv [oneOutputTx, threeOutputTx] [[True], [False, True, False]] [1, 1] =
     Inr demoList \<and>
   getOutputSpent demoEnv demoList ''zz'' 0 = Inl (UnknownTxid ''zz'') \<and>
   getOutputSpent demoEnv demoList ''aaa'' 64 = Inl (UnknownOutput 64 ''aaa'') \<and>
   getOutputSpent demoEnv demoList ''aaa'' 1 = Inr True"
proof -
  let ?txs = "[oneOutputTx, threeOutputTx]"
  let ?sp = "[[True], [False, True, False]]"
  have L: "newTXList demoEnv ?txs ?sp [1, 1] = Inr demoList"
    by (simp add: newTXList_def demoList_def oneOutputTx_def threeOutputTx_def)
  have ids: "getTxids demoEnv demoList = [''a'', ''aaa'']"
    by (simp add: getTxids_def demoList_def demoEnv_def oneOutputTx_def threeOutputTx_def
        numeral_3_eq_3)
  have id0: "txid demoEnv (?txs ! 0) \<noteq> ''aaa''"
    by (simp add: demoEnv_def oneOutputTx_def)
  have n1: "int (length (outputs (?txs ! 1))) = 3"
    by (simp add: threeOutputTx_def)
  have unknown: "getOutputSpent demoEnv demoList ''zz'' 0 = Inl (UnknownTxid ''zz'')"
    using C8_getOutputSpent [OF L, of "''zz''" 0] by (simp add: ids)
  have known: "''aaa'' \<in> set (getTxids demoEnv demoList)" by (simp add: ids)
  have pick: "i = 1" if "i < length ?txs" and "txid demoEnv (?txs ! i) = ''aaa''" for i
  proof -
    from that(1) have "i = 0 \<or> i = 1" by auto
    with that(2) id0 show ?thesis by auto
  qed
  from C8_getOutputSpent [OF L, of "''aaa''" 64] known
  obtain i where i1: "i < length ?txs" and i2: "txid demoEnv (?txs ! i) = ''aaa''"
    and r: "(64::int) < 0 \<or> int (length (outputs (?txs ! i))) \<le> 64 \<longrightarrow>
      getOutputSpent demoEnv demoList ''aaa'' 64 = Inl (UnknownOutput 64 ''aaa'')"
    by blast
  from i1 i2 have "i = 1" by (rule pick)
  with r n1 have far: "getOutputSpent demoEnv demoList ''aaa'' 64 = Inl (UnknownOutput 64 ''aaa'')"
    by simp
  from C8_getOutputSpent [OF L, of "''aaa''" 1] known
  obtain j where j1: "j < length ?txs" and j2: "txid demoEnv (?txs ! j) = ''aaa''"
    and r': "0 \<le> (1::int) \<and> 1 < int (length (outputs (?txs ! j))) \<longrightarrow>
      getOutputSpent demoEnv demoList ''aaa'' 1 = Inr (?sp ! j ! nat 1)"
    by blast
  from j1 j2 have "j = 1" by (rule pick)
  with r' n1 have near: "getOutputSpent demoEnv demoList ''aaa'' 1 = Inr True"
    by simp
  from L unknown far near show ?thesis by simp
qed

end
